theory Spec2Isabelle
  imports Main "HOL-Library.AList"
begin

section \<open>The host runtime the notebooks run on\<close>

text \<open>
  The two notebooks are runnable Python cells. Their functions print, read a line, read
  the clock, call each other and raise. The embedding makes each of these explicit:
  a function takes the world and returns an outcome (\<open>Inl\<close> an exception that
  propagates, \<open>Inr\<close> the returned value) together with the world it leaves.
\<close>

subsection \<open>Exceptions\<close>

text \<open>
  The exception classes the cells name, with the two classes the notebooks define
  (\<open>SuperConfusingError\<close> and \<open>InvalidCommand\<close>, both \<open>class X(Exception): pass\<close>).
\<close>

datatype pyclass =
    BaseException | Exception | SystemExit | KeyboardInterrupt
  | ArithmeticError | ZeroDivisionError | LookupError | IndexError
  | ValueError | EOFError | NameError | TypeError
  | SuperConfusingError | InvalidCommand

text \<open>The method resolution order of each class: the class, then its ancestors.\<close>

fun mro :: "pyclass \<Rightarrow> pyclass list" where
  "mro BaseException = [BaseException]"
| "mro Exception = [Exception, BaseException]"
| "mro SystemExit = [SystemExit, BaseException]"
| "mro KeyboardInterrupt = [KeyboardInterrupt, BaseException]"
| "mro ArithmeticError = [ArithmeticError, Exception, BaseException]"
| "mro ZeroDivisionError = [ZeroDivisionError, ArithmeticError, Exception, BaseException]"
| "mro LookupError = [LookupError, Exception, BaseException]"
| "mro IndexError = [IndexError, LookupError, Exception, BaseException]"
| "mro ValueError = [ValueError, Exception, BaseException]"
| "mro EOFError = [EOFError, Exception, BaseException]"
| "mro NameError = [NameError, Exception, BaseException]"
| "mro TypeError = [TypeError, Exception, BaseException]"
| "mro SuperConfusingError = [SuperConfusingError, Exception, BaseException]"
| "mro InvalidCommand = [InvalidCommand, Exception, BaseException]"

definition issubclass :: "pyclass \<Rightarrow> pyclass \<Rightarrow> bool" where
  "issubclass c d = (d \<in> set (mro c))"

text \<open>
  An exception object: its class, its message (the single argument every \<open>raise\<close> of
  the notebooks gives), and the three chaining attributes \<open>__cause__\<close>,
  \<open>__context__\<close> and \<open>__suppress_context__\<close>.
\<close>

datatype pyexn =
  PyExn (exn_class: pyclass) (exn_msg: string)
        (exn_cause: "pyexn option") (exn_context: "pyexn option")
        (suppress_context: bool)

definition new_exn :: "pyclass \<Rightarrow> string \<Rightarrow> pyexn" where
  "new_exn c m = PyExn c m None None False"

definition isinstance :: "pyexn \<Rightarrow> pyclass \<Rightarrow> bool" where
  "isinstance e c = issubclass (exn_class e) c"

text \<open>
  The three forms of \<open>raise\<close> inside an \<open>except\<close> block that is handling \<open>h\<close>:
  a plain \<open>raise X\<close> records \<open>h\<close> as the context; \<open>raise X from c\<close> also sets the
  cause and suppresses the context; \<open>raise X from None\<close> sets the cause to \<open>None\<close>
  and suppresses the context.
\<close>

fun raise_in_handler :: "pyexn \<Rightarrow> pyexn \<Rightarrow> pyexn" where
  "raise_in_handler h (PyExn c m cause ctx s) = PyExn c m cause (Some h) s"

fun raise_from :: "pyexn \<Rightarrow> pyexn \<Rightarrow> pyexn \<Rightarrow> pyexn" where
  "raise_from h c (PyExn k m cause ctx s) = PyExn k m (Some c) (Some h) True"

fun raise_from_None :: "pyexn \<Rightarrow> pyexn \<Rightarrow> pyexn" where
  "raise_from_None h (PyExn c m cause ctx s) = PyExn c m None (Some h) True"

text \<open>
  The exception a traceback shows as chained to \<open>e\<close>: the cause when there is one,
  else the context unless it is suppressed.
\<close>

definition chained :: "pyexn \<Rightarrow> pyexn option" where
  "chained e =
     (case exn_cause e of
        Some c \<Rightarrow> Some c
      | None \<Rightarrow> if suppress_context e then None else exn_context e)"

subsection \<open>The world: console, clock and call trace\<close>

text \<open>
  Positional and keyword arguments (\<open>*args, **kwargs\<close>) travel as a pair. The world
  holds what was written to the console, the lines still to be read from it, the
  readings \<open>time.time()\<close> will give (the \<open>n\<close>-th read returns \<open>clock n\<close>; \<open>'t\<close> stands
  for the float type), and a trace with one entry for every call made. No code reads
  the trace: it is there to count calls.
\<close>

type_synonym 'v pyargs = "'v list \<times> (string \<times> 'v) list"

record ('t, 'v) world =
  stdout :: string
  stdin :: "string list"
  clock :: "nat \<Rightarrow> 't"
  reads :: nat
  calls :: "(string \<times> 'v pyargs) list"

definition nl :: string where
  "nl = [CHR 0x0A]"

definition py_print :: "string \<Rightarrow> ('t, 'v) world \<Rightarrow> ('t, 'v) world" where
  "py_print s w = w\<lparr>stdout := stdout w @ s @ nl\<rparr>"

definition py_input :: "string \<Rightarrow> ('t, 'v) world \<Rightarrow> (pyexn + string) \<times> ('t, 'v) world" where
  "py_input prompt w =
     (let w1 = w\<lparr>stdout := stdout w @ prompt\<rparr>
      in case stdin w1 of
           [] \<Rightarrow> (Inl (new_exn EOFError ''EOF when reading a line''), w1)
         | l # ls \<Rightarrow> (Inr l, w1\<lparr>stdin := ls\<rparr>))"

definition time_time :: "('t, 'v) world \<Rightarrow> 't \<times> ('t, 'v) world" where
  "time_time w = (clock w (reads w), w\<lparr>reads := Suc (reads w)\<rparr>)"

subsection \<open>Function objects\<close>

text \<open>
  A function object carries its name, qualified name and docstring, and its behaviour.
  \<open>py_def\<close> is what a \<open>def\<close> statement nested in \<open>outer\<close> creates. \<open>wraps\<close> is
  \<open>functools.wraps(wrapped)\<close> applied to \<open>wrapper\<close>: it copies these three attributes
  (and the module and annotations, which the embedding leaves out) and keeps the
  behaviour. \<open>call\<close> is the call \<open>f(*args, **kwargs)\<close>, which adds its entry to the trace
  and runs the body.
\<close>

record ('t, 'v) pyfunc =
  py_name :: string
  py_qualname :: string
  py_doc :: "string option"
  body :: "'v pyargs \<Rightarrow> ('t, 'v) world \<Rightarrow> (pyexn + 'v) \<times> ('t, 'v) world"

definition py_def ::
  "string \<Rightarrow> string \<Rightarrow> ('v pyargs \<Rightarrow> ('t, 'v) world \<Rightarrow> (pyexn + 'v) \<times> ('t, 'v) world)
     \<Rightarrow> ('t, 'v) pyfunc" where
  "py_def outer name b =
     \<lparr>py_name = name, py_qualname = outer @ ''.<locals>.'' @ name, py_doc = None, body = b\<rparr>"

definition wraps :: "('t, 'v) pyfunc \<Rightarrow> ('t, 'v) pyfunc \<Rightarrow> ('t, 'v) pyfunc" where
  "wraps wrapped wrapper =
     wrapper\<lparr>py_name := py_name wrapped, py_qualname := py_qualname wrapped,
             py_doc := py_doc wrapped\<rparr>"

definition enter :: "('t, 'v) pyfunc \<Rightarrow> 'v pyargs \<Rightarrow> ('t, 'v) world \<Rightarrow> ('t, 'v) world" where
  "enter f args w = w\<lparr>calls := calls w @ [(py_name f, args)]\<rparr>"

definition call ::
  "('t, 'v) pyfunc \<Rightarrow> 'v pyargs \<Rightarrow> ('t, 'v) world \<Rightarrow> (pyexn + 'v) \<times> ('t, 'v) world" where
  "call f args w = body f args (enter f args w)"

section \<open>decorators.ipynb\<close>

subsection \<open>timer and log\_result\<close>

text \<open>
  The final definitions of the notebook, the ones under \<open>@functools.wraps(func)\<close>:
  \<^verbatim>\<open>
  def timer(func):
      @functools.wraps(func)
      def new_func(*args, **kwargs):
          start = time.time()
          value = func(*args, **kwargs)
          duration = time.time() - start
          print(f'Running {func.__name__} took {duration} seconds.')
          return value
      return new_func
  \<close>
  Float subtraction \<open>fsub\<close> and the text of a float \<open>fstr\<close> belong to the host and are
  parameters. An exception of \<open>func\<close> leaves \<open>new_func\<close> at that statement.
\<close>

definition timer ::
  "('t \<Rightarrow> 't \<Rightarrow> 't) \<Rightarrow> ('t \<Rightarrow> string) \<Rightarrow> ('t, 'v) pyfunc \<Rightarrow> ('t, 'v) pyfunc" where
  "timer fsub fstr func =
     wraps func (py_def ''timer'' ''new_func'' (\<lambda>args w.
       let (start, w1) = time_time w in
       case call func args w1 of
         (Inl e, w2) \<Rightarrow> (Inl e, w2)
       | (Inr value, w2) \<Rightarrow>
           let (finish, w3) = time_time w2;
               duration = fsub finish start
           in (Inr value,
               py_print (''Running '' @ py_name func @ '' took '' @ fstr duration
                           @ '' seconds.'') w3)))"

text \<open>
  \<^verbatim>\<open>
  def log_result(func):
      @functools.wraps(func)
      def new_func(*args, **kwargs):
          value = func(*args, **kwargs)
          print(f'{func.__name__} returned {value}.')
          return value
      return new_func
  \<close>
  \<open>str_of\<close> is the host's \<open>str\<close> of a value.
\<close>

definition log_result :: "('v \<Rightarrow> string) \<Rightarrow> ('t, 'v) pyfunc \<Rightarrow> ('t, 'v) pyfunc" where
  "log_result str_of func =
     wraps func (py_def ''log_result'' ''new_func'' (\<lambda>args w.
       case call func args w of
         (Inl e, w1) \<Rightarrow> (Inl e, w1)
       | (Inr value, w1) \<Rightarrow>
           (Inr value, py_print (py_name func @ '' returned '' @ str_of value @ ''.'') w1)))"

subsection \<open>describe\_as\<close>

text \<open>
  \<^verbatim>\<open>
  def describe_as(adjective):
      article = 'an' if adjective[0] in ('a', 'e', 'i', 'o', 'u') else 'a'
      def decorator(func):
          @functools.wraps(func)
          def new_func(*args, **kwargs):
              print(f'{func.__name__} is {article} {adjective} function.')
              return func(*args, **kwargs)
          return new_func
      return decorator
  \<close>
  The factory indexes the adjective before it builds the decorator, so it can raise;
  \<open>adjective[0]\<close> is the one-character string at the front.
\<close>

definition describe_as :: "string \<Rightarrow> pyexn + (('t, 'v) pyfunc \<Rightarrow> ('t, 'v) pyfunc)" where
  "describe_as adjective =
     (case adjective of
        [] \<Rightarrow> Inl (new_exn IndexError ''string index out of range'')
      | c # _ \<Rightarrow>
          let article = (if [c] \<in> set [''a'', ''e'', ''i'', ''o'', ''u''] then ''an'' else ''a'')
          in Inr (\<lambda>func.
               wraps func (py_def ''describe_as.<locals>.decorator'' ''new_func'' (\<lambda>args w.
                 call func args
                   (py_print (py_name func @ '' is '' @ article @ '' '' @ adjective
                                @ '' function.'') w)))))"

text \<open>
  The cell of the notebook decorates a function with \<open>@describe_as(adjective)\<close> and then
  calls the name it bound; when the factory raises, nothing is bound and nothing is called.
\<close>

definition describe_as_cell ::
  "string \<Rightarrow> ('t, 'v) pyfunc \<Rightarrow> 'v pyargs \<Rightarrow> ('t, 'v) world
     \<Rightarrow> (pyexn + 'v) \<times> ('t, 'v) world" where
  "describe_as_cell adjective func args w =
     (case describe_as adjective of
        Inl e \<Rightarrow> (Inl e, w)
      | Inr decorator \<Rightarrow> call (decorator func) args w)"

subsection \<open>Robot\<close>

text \<open>
  \<^verbatim>\<open>
  class Robot:
      def __init__(self):
          self.commands = {}
      def __getattr__(self, attr):
          command = self.commands.get(attr)
          if command is None:
              raise InvalidCommand(attr)
          return command
      def register_command(self, func):
          self.commands[func.__name__] = func
          return func
      def list_commands(self):
          return list(self.commands)
  \<close>
  A dict keeps its keys in insertion order and an assignment to a key that is present
  keeps the key's place: an association list under \<open>AList.update\<close>. A method that
  mutates \<open>self\<close> returns the robot it leaves beside its result. Python calls
  \<open>__getattr__\<close> for exactly the attribute names that normal lookup does not find.
\<close>

record ('t, 'v) Robot =
  commands :: "(string \<times> ('t, 'v) pyfunc) list"

definition Robot_init :: "('t, 'v) Robot" where
  "Robot_init = \<lparr>commands = []\<rparr>"

definition Robot_getattr :: "('t, 'v) Robot \<Rightarrow> string \<Rightarrow> pyexn + ('t, 'v) pyfunc" where
  "Robot_getattr self attr =
     (case map_of (commands self) attr of
        None \<Rightarrow> Inl (new_exn InvalidCommand attr)
      | Some command \<Rightarrow> Inr command)"

definition register_command ::
  "('t, 'v) Robot \<Rightarrow> ('t, 'v) pyfunc \<Rightarrow> ('t, 'v) pyfunc \<times> ('t, 'v) Robot" where
  "register_command self func =
     (func, self\<lparr>commands := AList.update (py_name func) func (commands self)\<rparr>)"

definition list_commands :: "('t, 'v) Robot \<Rightarrow> string list" where
  "list_commands self = map fst (commands self)"

text \<open>A cell that decorates one function after another with \<open>@robot.register_command\<close>.\<close>

fun register_all :: "('t, 'v) Robot \<Rightarrow> ('t, 'v) pyfunc list \<Rightarrow> ('t, 'v) Robot" where
  "register_all self [] = self"
| "register_all self (f # fs) = register_all (snd (register_command self f)) fs"

section \<open>The exception handling notebook\<close>

text \<open>
  \<open>int(input(f'{msg}: '))\<close> opens several of the cells. \<open>int\<close> on a string belongs to
  the host and is the parameter \<open>py_int\<close>; so are the true division of two ints into
  a float (\<open>fdiv\<close>, used only with a divisor that is not 0) and the text of a float.
\<close>

definition read_int ::
  "(string \<Rightarrow> pyexn + int) \<Rightarrow> string \<Rightarrow> ('t, 'v) world \<Rightarrow> (pyexn + int) \<times> ('t, 'v) world" where
  "read_int py_int msg w =
     (case py_input (msg @ '': '') w of
        (Inl e, w1) \<Rightarrow> (Inl e, w1)
      | (Inr line, w1) \<Rightarrow> (py_int line, w1))"

definition py_truediv :: "(int \<Rightarrow> int \<Rightarrow> 't) \<Rightarrow> int \<Rightarrow> int \<Rightarrow> pyexn + 't" where
  "py_truediv fdiv a b =
     (if b = 0 then Inl (new_exn ZeroDivisionError ''division by zero'') else Inr (fdiv a b))"

text \<open>
  \<^verbatim>\<open>
  def good_reciprocal(msg='Enter a number'):
      try:
          num = int(input(f'{msg}: '))
      except ValueError:
          print('Invalid input!')
          return

      try:
          print(1/num)
      except ZeroDivisionError:
          print('Cannot divide by 0!')
  \<close>
\<close>

definition good_reciprocal ::
  "(string \<Rightarrow> pyexn + int) \<Rightarrow> (int \<Rightarrow> int \<Rightarrow> 't) \<Rightarrow> ('t \<Rightarrow> string) \<Rightarrow> string
     \<Rightarrow> ('t, 'v) world \<Rightarrow> (pyexn + unit) \<times> ('t, 'v) world" where
  "good_reciprocal py_int fdiv fstr msg w =
     (case read_int py_int msg w of
        (Inl e, w1) \<Rightarrow>
          if isinstance e ValueError then (Inr (), py_print ''Invalid input!'' w1)
          else (Inl e, w1)
      | (Inr num, w1) \<Rightarrow>
          (case py_truediv fdiv 1 num of
             Inl e \<Rightarrow>
               if isinstance e ZeroDivisionError
               then (Inr (), py_print ''Cannot divide by 0!'' w1)
               else (Inl e, w1)
           | Inr q \<Rightarrow> (Inr (), py_print (fstr q) w1)))"

text \<open>
  \<^verbatim>\<open>
  def imported_function(num):
      if num == 3:
          raise SuperConfusingError('According to the laws ...')
      return num * (num+1) // 2
  \<close>
  Floor division by 2 is \<open>div\<close> on \<open>int\<close>.
\<close>

definition sand_worms :: string where
  "sand_worms = ''According to the laws set down by the Padishah Emperor Shaddam IV, the number 3 is unacceptable as it attracts sand worms.''"

definition imported_function :: "int \<Rightarrow> pyexn + int" where
  "imported_function num =
     (if num = 3 then Inl (new_exn SuperConfusingError sand_worms)
      else Inr (num * (num + 1) div 2))"

text \<open>
  The three translations of the imported error, which differ in the \<open>raise\<close> only:
  \<^verbatim>\<open>
  def user_function(msg='Please enter a number'):
      num = int(input(f'{msg}: '))
      try:
          return imported_function(num)
      except SuperConfusingError:
          raise ValueError('3 is no good.')
  \<close>
  with \<open>except SuperConfusingError as e: raise ValueError('3 is no good.') from e\<close> in
  \<open>less_confusing_user_function\<close> and \<open>raise ValueError('3 is no good.') from None\<close>
  in \<open>clean_user_function\<close>.
\<close>

definition user_function ::
  "(string \<Rightarrow> pyexn + int) \<Rightarrow> string \<Rightarrow> ('t, 'v) world \<Rightarrow> (pyexn + int) \<times> ('t, 'v) world" where
  "user_function py_int msg w =
     (case read_int py_int msg w of
        (Inl e, w1) \<Rightarrow> (Inl e, w1)
      | (Inr num, w1) \<Rightarrow>
          (case imported_function num of
             Inr r \<Rightarrow> (Inr r, w1)
           | Inl e \<Rightarrow>
               if isinstance e SuperConfusingError
               then (Inl (raise_in_handler e (new_exn ValueError ''3 is no good.'')), w1)
               else (Inl e, w1)))"

definition less_confusing_user_function ::
  "(string \<Rightarrow> pyexn + int) \<Rightarrow> string \<Rightarrow> ('t, 'v) world \<Rightarrow> (pyexn + int) \<times> ('t, 'v) world" where
  "less_confusing_user_function py_int msg w =
     (case read_int py_int msg w of
        (Inl e, w1) \<Rightarrow> (Inl e, w1)
      | (Inr num, w1) \<Rightarrow>
          (case imported_function num of
             Inr r \<Rightarrow> (Inr r, w1)
           | Inl e \<Rightarrow>
               if isinstance e SuperConfusingError
               then (Inl (raise_from e e (new_exn ValueError ''3 is no good.'')), w1)
               else (Inl e, w1)))"

definition clean_user_function ::
  "(string \<Rightarrow> pyexn + int) \<Rightarrow> string \<Rightarrow> ('t, 'v) world \<Rightarrow> (pyexn + int) \<times> ('t, 'v) world" where
  "clean_user_function py_int msg w =
     (case read_int py_int msg w of
        (Inl e, w1) \<Rightarrow> (Inl e, w1)
      | (Inr num, w1) \<Rightarrow>
          (case imported_function num of
             Inr r \<Rightarrow> (Inr r, w1)
           | Inl e \<Rightarrow>
               if isinstance e SuperConfusingError
               then (Inl (raise_from_None e (new_exn ValueError ''3 is no good.'')), w1)
               else (Inl e, w1)))"

section \<open>Sample inputs\<close>

text \<open>
  A fresh session with nothing printed, the given lines waiting on the console and a
  clock that reads 0, 1, 2, ...; \<open>slow_add\<close> of the notebook; a function that raises;
  an \<open>int\<close> that knows three strings; a read that is interrupted from the keyboard; and
  the text of three numbers.
\<close>

definition session :: "string list \<Rightarrow> (int, int) world" where
  "session lines = \<lparr>stdout = [], stdin = lines, clock = int, reads = 0, calls = []\<rparr>"

text \<open>
  \<^verbatim>\<open>
  def slow_add(x, y):
      result = x + y
      time.sleep(result)
      return result
  \<close>
  The two parameters bind by position or by keyword; \<open>time.sleep\<close> raises
  \<open>ValueError\<close> on a negative length and otherwise shows only in the clock.
\<close>

definition slow_add_body :: "int \<Rightarrow> int \<Rightarrow> ('t, 'v) world \<Rightarrow> (pyexn + int) \<times> ('t, 'v) world" where
  "slow_add_body x y w =
     (let result = x + y
      in if result < 0 then (Inl (new_exn ValueError ''sleep length must be non-negative''), w)
         else (Inr result, w))"

definition slow_add :: "(int, int) pyfunc" where
  "slow_add =
     \<lparr>py_name = ''slow_add'', py_qualname = ''slow_add'', py_doc = None,
      body = (\<lambda>args w. case args of
                ([x, y], []) \<Rightarrow> slow_add_body x y w
              | ([x], [(k, y)]) \<Rightarrow>
                  if k = ''y'' then slow_add_body x y w
                  else (Inl (new_exn TypeError ''slow_add() got an unexpected argument''), w)
              | ([], [(k, a), (l, b)]) \<Rightarrow>
                  if k = ''x'' \<and> l = ''y'' then slow_add_body a b w
                  else if k = ''y'' \<and> l = ''x'' then slow_add_body b a w
                  else (Inl (new_exn TypeError ''slow_add() got an unexpected argument''), w)
              | _ \<Rightarrow> (Inl (new_exn TypeError ''slow_add() takes 2 arguments''), w))\<rparr>"

definition always_raises :: "(int, int) pyfunc" where
  "always_raises =
     \<lparr>py_name = ''always_raises'', py_qualname = ''always_raises'', py_doc = None,
      body = (\<lambda>args w. (Inl (new_exn NameError ''name is not defined''), py_print ''about to fail'' w))\<rparr>"

definition small_int :: "string \<Rightarrow> pyexn + int" where
  "small_int s =
     (if s = ''0'' then Inr 0 else if s = ''3'' then Inr 3 else if s = ''4'' then Inr 4
      else Inl (new_exn ValueError ''invalid literal for int() with base 10''))"

definition interrupted :: "string \<Rightarrow> pyexn + int" where
  "interrupted s = Inl (new_exn KeyboardInterrupt [])"

definition digits :: "int \<Rightarrow> string" where
  "digits n = (if n = 0 then ''0'' else if n = 1 then ''1'' else if n = 5 then ''5'' else ''?'')"

section \<open>Properties\<close>

lemma py_name_wraps: "py_name (wraps f g) = py_name f"
  by (simp add: wraps_def)

lemma body_wraps: "body (wraps f g) = body g"
  by (simp add: wraps_def)

lemma body_py_def: "body (py_def outer name b) = b"
  by (simp add: py_def_def)

subsection \<open>The wrappers of timer and log\_result\<close>

lemma py_name_timer: "py_name (timer fsub fstr func) = py_name func"
  by (simp add: timer_def py_name_wraps)

lemma body_timer:
  "body (timer fsub fstr func) args w =
     (case call func args (snd (time_time w)) of
        (Inl e, w2) \<Rightarrow> (Inl e, w2)
      | (Inr v, w2) \<Rightarrow>
          (Inr v,
           py_print (''Running '' @ py_name func @ '' took ''
                       @ fstr (fsub (fst (time_time w2)) (fst (time_time w)))
                       @ '' seconds.'')
                    (snd (time_time w2))))"
  by (simp add: timer_def body_wraps body_py_def split_beta Let_def split: prod.splits sum.splits)

lemma py_name_log_result: "py_name (log_result str_of func) = py_name func"
  by (simp add: log_result_def py_name_wraps)

lemma body_log_result:
  "body (log_result str_of func) args w =
     (case call func args w of
        (Inl e, w1) \<Rightarrow> (Inl e, w1)
      | (Inr v, w1) \<Rightarrow>
          (Inr v, py_print (py_name func @ '' returned '' @ str_of v @ ''.'') w1))"
  by (simp add: log_result_def body_wraps body_py_def)

lemma calls_time_time: "calls (snd (time_time w)) = calls w"
  by (simp add: time_time_def)

lemma calls_py_print: "calls (py_print s w) = calls w"
  by (simp add: py_print_def)

lemma stdin_py_print: "stdin (py_print s w) = stdin w"
  by (simp add: py_print_def)

text \<open>
  Claim C1. Calling the function \<open>timer(func)\<close> returns calls \<open>func\<close> exactly once, with
  the arguments it was given, and gives back what \<open>func\<close> gave. With \<open>w1\<close> the world
  after the wrapper was entered and read the clock: the outcome of the wrapper is the
  outcome of \<open>func\<close> called on \<open>w1\<close> with the same arguments; when \<open>func\<close> starts, the
  trace holds the caller's entries, the wrapper's entry and this one call of \<open>func\<close>,
  and the console is as the caller left it; after \<open>func\<close> is done the wrapper makes no
  other call and reads no input.
\<close>

theorem timer_calls_func_once:
  "let T = timer fsub fstr func;
       w1 = snd (time_time (enter T args w));
       inner = call func args w1;
       outer = call T args w
   in fst outer = fst inner
    \<and> calls (enter func args w1) = calls w @ [(py_name T, args), (py_name func, args)]
    \<and> stdout (enter func args w1) = stdout w
    \<and> stdin (enter func args w1) = stdin w
    \<and> calls (snd outer) = calls (snd inner)
    \<and> stdin (snd outer) = stdin (snd inner)"
proof -
  define T where "T = timer fsub fstr func"
  define w1 where "w1 = snd (time_time (enter T args w))"
  obtain r w2 where inner: "call func args w1 = (r, w2)"
    by (cases "call func args w1")
  have outer: "call (timer fsub fstr func) args w
                 = body (timer fsub fstr func) args (enter (timer fsub fstr func) args w)"
    by (simp add: call_def)
  have res: "fst (call T args w) = r"
    using inner unfolding T_def outer body_timer w1_def
    by (cases r) simp_all
  have tr: "calls (snd (call T args w)) = calls w2"
    using inner unfolding T_def outer body_timer w1_def
    by (cases r) (simp_all add: calls_py_print calls_time_time)
  have inp: "stdin (snd (call T args w)) = stdin w2"
    using inner unfolding T_def outer body_timer w1_def
    by (cases r) (simp_all add: py_print_def time_time_def)
  have start: "calls (enter func args w1) = calls w @ [(py_name T, args), (py_name func, args)]"
    "stdout (enter func args w1) = stdout w" "stdin (enter func args w1) = stdin w"
    by (simp_all add: w1_def enter_def time_time_def)
  show ?thesis
    using res tr inp start inner by (simp add: Let_def T_def w1_def)
qed

text \<open>
  Claim C2. The wrapper of \<open>timer\<close> handles no error: when \<open>func\<close>, called by the wrapper,
  raises \<open>e\<close> and leaves the world \<open>w'\<close>, the call of the wrapper raises that same \<open>e\<close>
  and leaves that same \<open>w'\<close>: no report is printed and no value is returned.
\<close>

theorem timer_propagates_exception:
  "call func args (snd (time_time (enter (timer fsub fstr func) args w))) = (Inl e, w')
   \<Longrightarrow> call (timer fsub fstr func) args w = (Inl e, w')"
  by (simp add: call_def [of "timer fsub fstr func"] body_timer)

theorem timer_propagates_exception_witness:
  "call always_raises ([2, 3], [])
     (snd (time_time (enter (timer (-) digits always_raises) ([2, 3], []) (session []))))
   = (Inl (new_exn NameError ''name is not defined''),
      \<lparr>stdout = ''about to fail'' @ nl, stdin = [], clock = int, reads = 1,
       calls = [(''always_raises'', ([2, 3], [])), (''always_raises'', ([2, 3], []))]\<rparr>)
   \<and> call (timer (-) digits always_raises) ([2, 3], []) (session [])
   = (Inl (new_exn NameError ''name is not defined''),
      \<lparr>stdout = ''about to fail'' @ nl, stdin = [], clock = int, reads = 1,
       calls = [(''always_raises'', ([2, 3], [])), (''always_raises'', ([2, 3], []))]\<rparr>)"
proof -
  have h: "call always_raises ([2, 3], [])
     (snd (time_time (enter (timer (-) digits always_raises) ([2, 3], []) (session []))))
   = (Inl (new_exn NameError ''name is not defined''),
      \<lparr>stdout = ''about to fail'' @ nl, stdin = [], clock = int, reads = 1,
       calls = [(''always_raises'', ([2, 3], [])), (''always_raises'', ([2, 3], []))]\<rparr>)"
    by (simp add: call_def enter_def time_time_def py_name_timer always_raises_def
                  session_def py_print_def)
  from timer_propagates_exception [OF h] h show ?thesis by simp
qed

text \<open>
  Claim C4. The wrappers built under \<open>functools.wraps\<close> carry the name of the function
  they wrap: \<open>timer(func).__name__\<close> and \<open>log_result(func).__name__\<close> are
  \<open>func.__name__\<close>, also when the two are stacked, and then both printed reports name
  \<open>func\<close>.
\<close>

theorem wraps_keeps_the_name:
  "py_name (timer fsub fstr func) = py_name func
   \<and> py_name (log_result str_of func) = py_name func
   \<and> py_name (timer fsub fstr (log_result str_of func)) = py_name func
   \<and> (call func args
         (enter (log_result str_of func) args
           (snd (time_time (enter (timer fsub fstr (log_result str_of func)) args w))))
        = (Inr v, w2)
       \<longrightarrow> stdout (snd (call (timer fsub fstr (log_result str_of func)) args w))
           = stdout w2 @ py_name func @ '' returned '' @ str_of v @ ''.'' @ nl
               @ ''Running '' @ py_name func @ '' took ''
               @ fstr (fsub (clock w2 (reads w2)) (clock w (reads w))) @ '' seconds.'' @ nl)"
proof -
  have names: "py_name (timer fsub fstr func) = py_name func"
    "py_name (log_result str_of func) = py_name func"
    "py_name (timer fsub fstr (log_result str_of func)) = py_name func"
    by (simp_all add: timer_def log_result_def py_name_wraps)
  have report: "stdout (snd (call (timer fsub fstr (log_result str_of func)) args w))
           = stdout w2 @ py_name func @ '' returned '' @ str_of v @ ''.'' @ nl
               @ ''Running '' @ py_name func @ '' took ''
               @ fstr (fsub (clock w2 (reads w2)) (clock w (reads w))) @ '' seconds.'' @ nl"
    if h: "call func args
         (enter (log_result str_of func) args
           (snd (time_time (enter (timer fsub fstr (log_result str_of func)) args w))))
        = (Inr v, w2)"
  proof -
    have inner: "call (log_result str_of func) args
                   (snd (time_time (enter (timer fsub fstr (log_result str_of func)) args w)))
                 = (Inr v, py_print (py_name func @ '' returned '' @ str_of v @ ''.'') w2)"
      by (simp add: call_def [of "log_result str_of func"] body_log_result h)
    have outer: "call (timer fsub fstr (log_result str_of func)) args w
                 = (Inr v,
                    py_print (''Running '' @ py_name func @ '' took ''
                       @ fstr (fsub (clock w2 (reads w2)) (clock w (reads w))) @ '' seconds.'')
                      (snd (time_time
                        (py_print (py_name func @ '' returned '' @ str_of v @ ''.'') w2))))"
      unfolding call_def [of "timer fsub fstr (log_result str_of func)"] body_timer inner
      by (simp add: names py_print_def time_time_def enter_def)
    show ?thesis
      unfolding outer by (simp add: py_print_def time_time_def)
  qed
  from names report show ?thesis by blast
qed

theorem wraps_keeps_the_name_witness:
  "call slow_add ([2, 3], [])
     (enter (log_result digits slow_add) ([2, 3], [])
       (snd (time_time (enter (timer (-) digits (log_result digits slow_add)) ([2, 3], [])
                          (session [])))))
   = (Inr 5,
      \<lparr>stdout = [], stdin = [], clock = int, reads = 1,
       calls = [(''slow_add'', ([2, 3], [])), (''slow_add'', ([2, 3], [])),
                (''slow_add'', ([2, 3], []))]\<rparr>)
   \<and> py_name (timer (-) digits (log_result digits slow_add)) = ''slow_add''
   \<and> stdout (snd (call (timer (-) digits (log_result digits slow_add)) ([2, 3], [])
                        (session [])))
     = ''slow_add returned 5.'' @ nl @ ''Running slow_add took 1 seconds.'' @ nl"
proof -
  have h: "call slow_add ([2, 3], [])
     (enter (log_result digits slow_add) ([2, 3], [])
       (snd (time_time (enter (timer (-) digits (log_result digits slow_add)) ([2, 3], [])
                          (session [])))))
   = (Inr 5,
      \<lparr>stdout = [], stdin = [], clock = int, reads = 1,
       calls = [(''slow_add'', ([2, 3], [])), (''slow_add'', ([2, 3], [])),
                (''slow_add'', ([2, 3], []))]\<rparr>)"
    by (simp add: call_def enter_def time_time_def py_name_timer py_name_log_result
                  slow_add_def slow_add_body_def session_def)
  have n: "py_name slow_add = ''slow_add''"
    by (simp add: slow_add_def)
  from wraps_keeps_the_name [of "(-)" digits slow_add digits "([2, 3], [])" "session []"] h n
  show ?thesis
    by (simp add: session_def digits_def)
qed

subsection \<open>The decorator factory\<close>

text \<open>
  Claim C3, as stated, fails at two inputs. It promises a decorator for every adjective,
  and the factory raises \<open>IndexError\<close> on the empty one. It promises \<open>an\<close> before an
  adjective that starts with a vowel, and the factory compares the first character with
  the five lowercase letters only, so \<open>Odd\<close> gets \<open>a\<close>.
\<close>

theorem describe_as_counterexample:
  "(describe_as [] :: pyexn + ((int, int) pyfunc \<Rightarrow> (int, int) pyfunc))
     = Inl (new_exn IndexError ''string index out of range'')
   \<and> stdout (snd (describe_as_cell ''Odd'' slow_add ([2, 3], []) (session [])))
     = ''slow_add is a Odd function.'' @ nl"
  by (simp add: describe_as_cell_def describe_as_def call_def wraps_def py_def_def enter_def
                py_print_def slow_add_def slow_add_body_def session_def)

text \<open>
  Claim C3, amended. For every adjective that is not empty, \<open>describe_as(adjective)\<close>
  returns a decorator, and for every function, arguments and world the wrapper it builds
  keeps the function's name, prints \<open>{func.__name__} is {article} {adjective} function.\<close>
  first, with the article \<open>an\<close> when the first character is one of the lowercase letters
  a, e, i, o, u and \<open>a\<close> otherwise, and then is the call of \<open>func\<close> with the same
  arguments: it returns what \<open>func\<close> returns and raises what \<open>func\<close> raises.
\<close>

theorem describe_as_prints_then_delegates:
  "adjective \<noteq> [] \<Longrightarrow>
   \<exists>decorator. describe_as adjective = Inr decorator
     \<and> (\<forall>func args w.
           py_name (decorator func) = py_name func
         \<and> call (decorator func) args w
           = call func args
               (py_print (py_name func @ '' is ''
                            @ (if hd adjective \<in> set ''aeiou'' then ''an'' else ''a'')
                            @ '' '' @ adjective @ '' function.'')
                         (enter (decorator func) args w)))"
  by (cases adjective)
     (auto simp add: describe_as_def call_def wraps_def py_def_def enter_def Let_def)

theorem describe_as_prints_then_delegates_witness:
  "''annoying'' \<noteq> []
   \<and> describe_as_cell ''annoying'' slow_add ([2, 3], []) (session [])
     = (Inr 5,
        \<lparr>stdout = ''slow_add is an annoying function.'' @ nl, stdin = [], clock = int,
         reads = 0,
         calls = [(''slow_add'', ([2, 3], [])), (''slow_add'', ([2, 3], []))]\<rparr>)"
proof -
  have ne: "''annoying'' \<noteq> []" by simp
  from describe_as_prints_then_delegates [OF ne]
  obtain decorator :: "(int, int) pyfunc \<Rightarrow> (int, int) pyfunc"
    where d: "describe_as ''annoying'' = Inr decorator"
      and c: "\<And>func args w. call (decorator func) args w
           = call func args
               (py_print (py_name func @ '' is ''
                            @ (if hd ''annoying'' \<in> set ''aeiou'' then ''an'' else ''a'')
                            @ '' '' @ ''annoying'' @ '' function.'')
                         (enter (decorator func) args w))"
      and n: "\<And>func. py_name (decorator func) = py_name func"
    by blast
  have "call (decorator slow_add) ([2, 3], []) (session [])
          = (Inr 5,
            \<lparr>stdout = ''slow_add is an annoying function.'' @ nl, stdin = [], clock = int,
             reads = 0,
             calls = [(''slow_add'', ([2, 3], [])), (''slow_add'', ([2, 3], []))]\<rparr>)"
    unfolding c
    by (simp add: n call_def enter_def py_print_def slow_add_def slow_add_body_def session_def)
  with d show ?thesis by (simp add: describe_as_cell_def)
qed

text \<open>
  Claim C9. \<open>describe_as('')\<close> raises \<open>IndexError\<close> and returns no decorator, since
  \<open>adjective[0]\<close> is evaluated when the factory is called; for every adjective that is
  not empty the factory returns a decorator.
\<close>

theorem describe_as_raises_on_empty_only:
  "(describe_as [] :: pyexn + (('t, 'v) pyfunc \<Rightarrow> ('t, 'v) pyfunc))
     = Inl (new_exn IndexError ''string index out of range'')
   \<and> (adjective \<noteq> [] \<longrightarrow>
        (\<exists>decorator :: ('t, 'v) pyfunc \<Rightarrow> ('t, 'v) pyfunc.
           describe_as adjective = Inr decorator))"
  by (cases adjective) (simp_all add: describe_as_def Let_def)

theorem describe_as_raises_on_empty_only_witness:
  "''boring'' \<noteq> []
   \<and> (\<exists>decorator :: (int, int) pyfunc \<Rightarrow> (int, int) pyfunc.
         describe_as ''boring'' = Inr decorator)"
  using describe_as_raises_on_empty_only [of "''boring''", where ?'t = int and ?'v = int]
  by simp

subsection \<open>The robot's command registry\<close>

lemma map_of_register_command:
  "map_of (commands (snd (register_command r f))) = (map_of (commands r))(py_name f \<mapsto> f)"
  by (simp add: register_command_def update_conv')

lemma find_after_append:
  "find P (xs @ ys) = (case find P xs of None \<Rightarrow> find P ys | Some x \<Rightarrow> Some x)"
  by (induction xs) simp_all

lemma map_of_register_all:
  "map_of (commands (register_all r fs)) n =
     (case find (\<lambda>f. py_name f = n) (rev fs) of
        Some f \<Rightarrow> Some f
      | None \<Rightarrow> map_of (commands r) n)"
proof (induction fs arbitrary: r)
  case Nil
  show ?case by simp
next
  case (Cons f fs)
  show ?case
    by (simp add: Cons.IH map_of_register_command find_after_append split: option.split)
qed

text \<open>
  Claim C7. After the functions \<open>fs\<close> were registered on a robot, in this order, the
  lookup \<open>__getattr__\<close> makes for a name \<open>n\<close> returns the function registered under
  \<open>n\<close> (the last one when several had that name); when none of them had that name the
  lookup is the one of the robot before, which on a new robot raises \<open>InvalidCommand(n)\<close>.
\<close>

theorem getattr_finds_registered_command:
  "Robot_getattr (register_all (r :: ('t, 'v) Robot) fs) n =
     (case find (\<lambda>f. py_name f = n) (rev fs) of
        Some f \<Rightarrow> Inr f
      | None \<Rightarrow> Robot_getattr r n)
   \<and> Robot_getattr (Robot_init :: ('t, 'v) Robot) n = Inl (new_exn InvalidCommand n)"
  by (simp add: Robot_getattr_def map_of_register_all Robot_init_def split: option.split)

text \<open>
  Claim C10. \<open>register_command\<close> returns the function it was given, and what it changes is
  the registry, at the one key \<open>func.__name__\<close>, which now maps to the function;
  \<open>list_commands\<close> keeps its order, gains the name at the end when it is new, and so
  reports it.
\<close>

theorem register_command_returns_its_argument:
  "fst (register_command r f) = f
   \<and> map_of (commands (snd (register_command r f))) = (map_of (commands r))(py_name f \<mapsto> f)
   \<and> list_commands (snd (register_command r f))
       = (if py_name f \<in> set (list_commands r) then list_commands r
          else list_commands r @ [py_name f])
   \<and> py_name f \<in> set (list_commands (snd (register_command r f)))"
  by (simp add: register_command_def list_commands_def update_conv' update_keys)

subsection \<open>Catching and translating exceptions\<close>

lemma read_int_line:
  "stdin w = line # rest \<Longrightarrow>
   read_int py_int msg w = (py_int line, w\<lparr>stdout := stdout w @ msg @ '': '', stdin := rest\<rparr>)"
  by (cases "py_int line") (simp_all add: read_int_def py_input_def)

lemma read_int_eof:
  "stdin w = [] \<Longrightarrow>
   read_int py_int msg w
     = (Inl (new_exn EOFError ''EOF when reading a line''), w\<lparr>stdout := stdout w @ msg @ '': ''\<rparr>)"
  by (simp add: read_int_def py_input_def)

lemma isinstance_new_exn: "isinstance (new_exn c m) d = (d \<in> set (mro c))"
  by (simp add: isinstance_def new_exn_def issubclass_def)

text \<open>
  Claim C5. \<open>imported_function\<close> raises \<open>SuperConfusingError\<close> exactly at 3 and returns
  \<open>num * (num+1) // 2\<close> elsewhere. When the line read is the number 3,
  \<open>less_confusing_user_function\<close> raises a \<open>ValueError\<close> with the message
  \<open>3 is no good.\<close> whose cause is the exception \<open>imported_function\<close> raised, and a
  traceback shows that cause; for another number it returns what \<open>imported_function\<close>
  returned.
\<close>

theorem less_confusing_user_function_chains:
  assumes "stdin w = line # rest" and "py_int line = Inr num"
  shows "(num = 3 \<longrightarrow>
            imported_function num = Inl (new_exn SuperConfusingError sand_worms)
          \<and> (\<exists>x. fst (less_confusing_user_function py_int msg w) = Inl x
                \<and> exn_class x = ValueError \<and> exn_msg x = ''3 is no good.''
                \<and> exn_cause x = Some (new_exn SuperConfusingError sand_worms)
                \<and> chained x = Some (new_exn SuperConfusingError sand_worms)))
       \<and> (num \<noteq> 3 \<longrightarrow>
            imported_function num = Inr (num * (num + 1) div 2)
          \<and> fst (less_confusing_user_function py_int msg w) = Inr (num * (num + 1) div 2))"
  using assms
  by (simp add: less_confusing_user_function_def read_int_line imported_function_def
                isinstance_def issubclass_def new_exn_def chained_def)

theorem less_confusing_user_function_chains_witness:
  "stdin (session [''3'']) = ''3'' # [] \<and> small_int ''3'' = Inr 3
   \<and> (\<exists>x. fst (less_confusing_user_function small_int ''Enter 3'' (session [''3''])) = Inl x
          \<and> exn_class x = ValueError \<and> exn_msg x = ''3 is no good.''
          \<and> exn_cause x = Some (new_exn SuperConfusingError sand_worms)
          \<and> chained x = Some (new_exn SuperConfusingError sand_worms))
   \<and> stdin (session [''4'']) = ''4'' # [] \<and> small_int ''4'' = Inr 4
   \<and> fst (less_confusing_user_function small_int ''Enter 4'' (session [''4''])) = Inr 10"
proof -
  have a: "stdin (session [''3'']) = ''3'' # []" "stdin (session [''4'']) = ''4'' # []"
    by (simp_all add: session_def)
  have b: "small_int ''3'' = Inr 3" "small_int ''4'' = Inr 4"
    by (simp_all add: small_int_def)
  note three = less_confusing_user_function_chains
         [where w = "session [''3'']" and line = "''3''" and rest = "[]" and py_int = small_int
            and num = 3 and msg = "''Enter 3''", OF a(1) b(1)]
  note four = less_confusing_user_function_chains
         [where w = "session [''4'']" and line = "''4''" and rest = "[]" and py_int = small_int
            and num = 4 and msg = "''Enter 4''", OF a(2) b(2)]
  from three four a b show ?thesis by simp
qed

text \<open>
  Claim C6, as stated, fails where it says that the original \<open>SuperConfusingError\<close> is
  not attached to the \<open>ValueError\<close>: \<open>raise ... from None\<close> runs inside the \<open>except\<close>
  block, so the exception being handled, the one \<open>imported_function\<close> raised, is
  recorded as the \<open>__context__\<close> of the new one.
\<close>

theorem clean_user_function_counterexample:
  "imported_function 3 = Inl (new_exn SuperConfusingError sand_worms)
   \<and> fst (clean_user_function small_int ''Enter 3'' (session [''3'']))
     = Inl (PyExn ValueError ''3 is no good.'' None
              (Some (new_exn SuperConfusingError sand_worms)) True)
   \<and> exn_context (PyExn ValueError ''3 is no good.'' None
                    (Some (new_exn SuperConfusingError sand_worms)) True)
     = Some (new_exn SuperConfusingError sand_worms)"
  by (simp add: clean_user_function_def read_int_def py_input_def session_def small_int_def
                imported_function_def isinstance_def issubclass_def new_exn_def)

text \<open>
  Claim C6, amended. When the line read is the number 3, \<open>imported_function\<close> raises
  \<open>SuperConfusingError\<close> and \<open>clean_user_function\<close> translates it into a \<open>ValueError\<close>
  with the message \<open>3 is no good.\<close> whose chained cause is suppressed: \<open>__cause__\<close> is
  \<open>None\<close> and \<open>__suppress_context__\<close> is set, so a traceback shows no exception chained
  to it; the original \<open>SuperConfusingError\<close> stays attached to it as \<open>__context__\<close>.
\<close>

theorem clean_user_function_suppresses:
  assumes "stdin w = line # rest" and "py_int line = Inr 3"
  shows "imported_function 3 = Inl (new_exn SuperConfusingError sand_worms)
       \<and> (\<exists>x. fst (clean_user_function py_int msg w) = Inl x
             \<and> exn_class x = ValueError \<and> exn_msg x = ''3 is no good.''
             \<and> exn_cause x = None \<and> suppress_context x \<and> chained x = None
             \<and> exn_context x = Some (new_exn SuperConfusingError sand_worms))"
  using assms
  by (simp add: clean_user_function_def read_int_line imported_function_def
                isinstance_def issubclass_def new_exn_def chained_def)

theorem clean_user_function_suppresses_witness:
  "stdin (session [''3'']) = ''3'' # [] \<and> small_int ''3'' = Inr 3
   \<and> (\<exists>x. fst (clean_user_function small_int ''Enter 3'' (session [''3''])) = Inl x
           \<and> exn_class x = ValueError \<and> exn_msg x = ''3 is no good.''
           \<and> exn_cause x = None \<and> suppress_context x \<and> chained x = None
           \<and> exn_context x = Some (new_exn SuperConfusingError sand_worms))"
proof -
  have a: "stdin (session [''3'']) = ''3'' # []"
    by (simp add: session_def)
  have b: "small_int ''3'' = Inr 3"
    by (simp add: small_int_def)
  from clean_user_function_suppresses
         [where w = "session [''3'']" and line = "''3''" and rest = "[]" and py_int = small_int
            and msg = "''Enter 3''", OF a b] a b
  show ?thesis by simp
qed

text \<open>
  Claim C8. In \<open>good_reciprocal\<close>, a \<open>ValueError\<close> from parsing the line prints
  \<open>Invalid input!\<close> and the function returns, with no division and nothing else
  printed; a \<open>ZeroDivisionError\<close> from the division, which only the number 0 gives,
  prints \<open>Cannot divide by 0!\<close>; an exception of another class propagates with only the
  prompt printed, whether it comes from parsing or from a console with no line left.
\<close>

theorem good_reciprocal_handles:
  "(stdin w = line # rest \<and> py_int line = Inl e \<and> isinstance e ValueError
      \<longrightarrow> good_reciprocal py_int fdiv fstr msg w
          = (Inr (), w\<lparr>stdout := stdout w @ msg @ '': '' @ ''Invalid input!'' @ nl,
                        stdin := rest\<rparr>))
   \<and> (stdin w = line # rest \<and> py_int line = Inr num
        \<and> py_truediv fdiv 1 num = Inl e \<and> isinstance e ZeroDivisionError
      \<longrightarrow> num = 0
        \<and> good_reciprocal py_int fdiv fstr msg w
          = (Inr (), w\<lparr>stdout := stdout w @ msg @ '': '' @ ''Cannot divide by 0!'' @ nl,
                        stdin := rest\<rparr>))
   \<and> (stdin w = line # rest \<and> py_int line = Inl e \<and> \<not> isinstance e ValueError
      \<longrightarrow> good_reciprocal py_int fdiv fstr msg w
          = (Inl e, w\<lparr>stdout := stdout w @ msg @ '': '', stdin := rest\<rparr>))
   \<and> (stdin w = []
      \<longrightarrow> good_reciprocal py_int fdiv fstr msg w
          = (Inl (new_exn EOFError ''EOF when reading a line''),
             w\<lparr>stdout := stdout w @ msg @ '': ''\<rparr>))"
proof -
  have parse_fails: "good_reciprocal py_int fdiv fstr msg w
          = (Inr (), w\<lparr>stdout := stdout w @ msg @ '': '' @ ''Invalid input!'' @ nl,
                        stdin := rest\<rparr>)"
    if "stdin w = line # rest" "py_int line = Inl e" "isinstance e ValueError"
    using that by (simp add: good_reciprocal_def read_int_line py_print_def)
  have zero: "num = 0 \<and> good_reciprocal py_int fdiv fstr msg w
          = (Inr (), w\<lparr>stdout := stdout w @ msg @ '': '' @ ''Cannot divide by 0!'' @ nl,
                        stdin := rest\<rparr>)"
    if "stdin w = line # rest" "py_int line = Inr num" "py_truediv fdiv 1 num = Inl e"
       "isinstance e ZeroDivisionError"
  proof -
    from that(3) have "num = 0"
      by (simp add: py_truediv_def split: if_splits)
    with that show ?thesis
      by (simp add: good_reciprocal_def read_int_line py_print_def)
  qed
  have other: "good_reciprocal py_int fdiv fstr msg w
          = (Inl e, w\<lparr>stdout := stdout w @ msg @ '': '', stdin := rest\<rparr>)"
    if "stdin w = line # rest" "py_int line = Inl e" "\<not> isinstance e ValueError"
    using that by (simp add: good_reciprocal_def read_int_line)
  have eof: "good_reciprocal py_int fdiv fstr msg w
          = (Inl (new_exn EOFError ''EOF when reading a line''),
             w\<lparr>stdout := stdout w @ msg @ '': ''\<rparr>)"
    if "stdin w = []"
    using that by (simp add: good_reciprocal_def read_int_eof isinstance_new_exn)
  from parse_fails zero other eof show ?thesis by blast
qed

theorem good_reciprocal_handles_witness:
  "stdin (session [''foo'']) = ''foo'' # []
   \<and> small_int ''foo'' = Inl (new_exn ValueError ''invalid literal for int() with base 10'')
   \<and> isinstance (new_exn ValueError ''invalid literal for int() with base 10'') ValueError
   \<and> good_reciprocal small_int (\<lambda>a b. a + b) digits ''Enter foo'' (session [''foo''])
     = (Inr (), (session [])\<lparr>stdout := ''Enter foo: Invalid input!'' @ nl\<rparr>)
   \<and> stdin (session [''0'']) = ''0'' # [] \<and> small_int ''0'' = Inr 0
   \<and> py_truediv (\<lambda>a b. a + b) 1 0 = Inl (new_exn ZeroDivisionError ''division by zero'')
   \<and> isinstance (new_exn ZeroDivisionError ''division by zero'') ZeroDivisionError
   \<and> good_reciprocal small_int (\<lambda>a b. a + b) digits ''Enter 0'' (session [''0''])
     = (Inr (), (session [])\<lparr>stdout := ''Enter 0: Cannot divide by 0!'' @ nl\<rparr>)
   \<and> interrupted ''5'' = Inl (new_exn KeyboardInterrupt [])
   \<and> \<not> isinstance (new_exn KeyboardInterrupt []) ValueError
   \<and> good_reciprocal interrupted (\<lambda>a b. a + b) digits ''Enter 5'' (session [''5''])
     = (Inl (new_exn KeyboardInterrupt []), (session [])\<lparr>stdout := ''Enter 5: ''\<rparr>)
   \<and> stdin (session []) = []
   \<and> good_reciprocal small_int (\<lambda>a b. a + b) digits ''Enter a number'' (session [])
     = (Inl (new_exn EOFError ''EOF when reading a line''),
        (session [])\<lparr>stdout := ''Enter a number: ''\<rparr>)"
proof -
  have s: "stdin (session [''foo'']) = ''foo'' # []" "stdin (session [''0'']) = ''0'' # []"
    "stdin (session [''5'']) = ''5'' # []" "stdin (session []) = []"
    by (simp_all add: session_def)
  have p: "small_int ''foo'' = Inl (new_exn ValueError ''invalid literal for int() with base 10'')"
    "small_int ''0'' = Inr 0" "interrupted ''5'' = Inl (new_exn KeyboardInterrupt [])"
    by (simp_all add: small_int_def interrupted_def)
  have d: "py_truediv (\<lambda>a b. a + b) 1 0 = Inl (new_exn ZeroDivisionError ''division by zero'')"
    by (simp add: py_truediv_def)
  have i: "isinstance (new_exn ValueError ''invalid literal for int() with base 10'') ValueError"
    "isinstance (new_exn ZeroDivisionError ''division by zero'') ZeroDivisionError"
    "\<not> isinstance (new_exn KeyboardInterrupt []) ValueError"
    by (simp_all add: isinstance_new_exn)
  note t = good_reciprocal_handles
  have g1: "good_reciprocal small_int (\<lambda>a b. a + b) digits ''Enter foo'' (session [''foo''])
     = (Inr (), (session [])\<lparr>stdout := ''Enter foo: Invalid input!'' @ nl\<rparr>)"
    using t [where w = "session [''foo'']" and line = "''foo''" and rest = "[]"
               and py_int = small_int and msg = "''Enter foo''" and fdiv = "\<lambda>a b. a + b"
               and fstr = digits
               and e = "new_exn ValueError ''invalid literal for int() with base 10''"]
          s(1) p(1) i(1)
    by (simp add: session_def)
  have g2: "good_reciprocal small_int (\<lambda>a b. a + b) digits ''Enter 0'' (session [''0''])
     = (Inr (), (session [])\<lparr>stdout := ''Enter 0: Cannot divide by 0!'' @ nl\<rparr>)"
    using t [where w = "session [''0'']" and line = "''0''" and rest = "[]"
               and py_int = small_int and msg = "''Enter 0''" and fdiv = "\<lambda>a b. a + b"
               and fstr = digits and num = 0
               and e = "new_exn ZeroDivisionError ''division by zero''"]
          s(2) p(2) d i(2)
    by (simp add: session_def)
  have g3: "good_reciprocal interrupted (\<lambda>a b. a + b) digits ''Enter 5'' (session [''5''])
     = (Inl (new_exn KeyboardInterrupt []), (session [])\<lparr>stdout := ''Enter 5: ''\<rparr>)"
    using t [where w = "session [''5'']" and line = "''5''" and rest = "[]"
               and py_int = interrupted and msg = "''Enter 5''" and fdiv = "\<lambda>a b. a + b"
               and fstr = digits and e = "new_exn KeyboardInterrupt []"]
          s(3) p(3) i(3)
    by (simp add: session_def)
  have g4: "good_reciprocal small_int (\<lambda>a b. a + b) digits ''Enter a number'' (session [])
     = (Inl (new_exn EOFError ''EOF when reading a line''),
        (session [])\<lparr>stdout := ''Enter a number: ''\<rparr>)"
    using t [where w = "session []" and py_int = small_int and msg = "''Enter a number''"
               and fdiv = "\<lambda>a b. a + b" and fstr = digits] s(4)
    by (simp add: session_def)
  from s p d i g1 g2 g3 g4 show ?thesis by simp
qed

end
